theory Spec2Isabelle
  imports Main "HOL-Library.Multiset" "HOL-Library.AList"
begin

section \<open>The UNO game module (src/modules/games/uno.py)\<close>

subsection \<open>Data model\<close>

text \<open>
  A card is the Python tuple \<open>(color, value)\<close> of two strings.  Lists are kept in
  Python order: \<open>xs.append(x)\<close> is \<open>xs @ [x]\<close>, \<open>xs.pop()\<close> takes \<open>last xs\<close> and
  leaves \<open>butlast xs\<close>, and \<open>xs[-1]\<close> is \<open>last xs\<close>.  A dictionary is an association
  list in insertion order with one entry per key: \<open>d.get(k)\<close> is \<open>map_of d k\<close>,
  \<open>d[k] = v\<close> is \<open>AList.update k v d\<close> and \<open>del d[k]\<close> is \<open>AList.delete k d\<close>.
\<close>

type_synonym card = "string \<times> string"

datatype py_error = IndexError | KeyError | ZeroDivisionError | UnboundLocalError

text \<open>The per-chat game dictionary built by \<open>uno_start\<close>.\<close>

record game =
  players :: "int list"
  hands :: "(int \<times> card list) list"
  deck :: "card list"
  pile :: "card list"
  current :: int
  direction :: int
  current_color :: "string option"
  started :: bool
  last_active :: int

text \<open>
  The process state the handlers touch: the global dictionary \<open>GAMES\<close>, the contents of
  \<open>uno_games.json\<close> (\<open>None\<close> while the file does not exist) and of \<open>uno_stats.json\<close>.
  The JSON keys \<open>str(cid)\<close> and \<open>str(uid)\<close> are kept as the integers they print.
  Writing a file is taken to succeed.
\<close>

record world =
  GAMES :: "(int \<times> game) list"
  games_file :: "(int \<times> game) list option"
  stats_file :: "(int \<times> (int \<times> int) list) list"

text \<open>
  What a handler did: the reply it sent last, or the exception that left it (the
  decorator \<open>log_handler\<close> logs and swallows it; the mutations made before it stay).
\<close>

datatype outcome =
    Started
  | StartFirst
  | GameAlreadyStarted
  | AlreadyJoined
  | Joined nat
  | GameInProgress
  | NeedPlayers
  | Begun card
  | ResetDone
  | NoGameToReset
  | NoActiveGame
  | StatusWaiting nat
  | StatusRunning nat int "string option" "card option"
  | NotRunning
  | NotYourTurn
  | Usage
  | ChooseColor
  | NotHeld
  | InvalidCard
  | NextTurn int
  | Won int
  | Raised py_error

subsection \<open>Python primitives\<close>

definition py_index :: "'a list \<Rightarrow> int \<Rightarrow> 'a option" where
  \<comment> \<open>\<open>xs[i]\<close>: negative indices count from the end, \<open>None\<close> is IndexError\<close>
  "py_index xs i =
     (if 0 \<le> i \<and> i < int (length xs) then Some (xs ! nat i)
      else if i < 0 \<and> - int (length xs) \<le> i then Some (xs ! nat (int (length xs) + i))
      else None)"

fun pop_many :: "nat \<Rightarrow> 'a list \<Rightarrow> 'a list \<times> 'a list option" where
  \<comment> \<open>\<open>[d.pop() for _ in range(k)]\<close>: the list left behind, and the cards popped
      (\<open>None\<close> when a pop hit the empty list: the cards popped so far are dropped)\<close>
  "pop_many 0 d = (d, Some [])"
| "pop_many (Suc k) d =
     (if d = [] then (d, None)
      else (case pop_many k (butlast d) of
              (d', None) \<Rightarrow> (d', None)
            | (d', Some cs) \<Rightarrow> (d', Some (last d # cs))))"

definition lower_char :: "char \<Rightarrow> char" where
  "lower_char c =
     (let n = (of_char c :: nat) in if 65 \<le> n \<and> n \<le> 90 then char_of (n + 32) else c)"

definition lower :: "string \<Rightarrow> string" where
  \<comment> \<open>\<open>str.lower()\<close> on ASCII text\<close>
  "lower s = map lower_char s"

definition isdigit :: "string \<Rightarrow> bool" where
  \<comment> \<open>\<open>str.isdigit()\<close> on ASCII text\<close>
  "isdigit s = (s \<noteq> [] \<and> list_all (\<lambda>c. 48 \<le> (of_char c :: nat) \<and> (of_char c :: nat) \<le> 57) s)"

subsection \<open>Cards and the deck\<close>

definition COLORS :: "string list" where
  "COLORS = [''red'', ''green'', ''blue'', ''yellow'']"

definition SPECIAL :: "(string \<times> string) list" where
  "SPECIAL = [(''skip'', ''skip''), (''reverse'', ''reverse''), (''draw2'', ''+2''),
              (''wild'', ''wild''), (''wild4'', ''wild4'')]"

definition str_digit :: "nat \<Rightarrow> string" where
  \<comment> \<open>\<open>str(n)\<close> for a single decimal digit\<close>
  "str_digit n = [char_of (48 + n)]"

definition digits :: "string list" where
  \<comment> \<open>\<open>str(n) for n in range(1, 10)\<close>\<close>
  "digits = map str_digit [1..<10]"

definition color_cards :: "string \<Rightarrow> card list" where
  "color_cards c =
     (c, ''0'') # concat (map (\<lambda>n. [(c, n), (c, n)]) digits)
       @ concat (map (\<lambda>sp. [(c, sp), (c, sp)]) [''skip'', ''reverse'', ''draw2''])"

definition full_deck :: "card list" where
  \<comment> \<open>the deck of \<open>create_deck\<close> before \<open>random.shuffle\<close>\<close>
  "full_deck =
     concat (map color_cards COLORS)
       @ replicate 4 (''wild'', ''wild'') @ replicate 4 (''wild'', ''wild4'')"

definition create_deck :: "(card list \<Rightarrow> card list) \<Rightarrow> card list" where
  \<comment> \<open>the argument is the outcome of \<open>random.shuffle\<close>\<close>
  "create_deck shuffle = shuffle full_deck"

definition disp :: "card \<Rightarrow> py_error + string" where
  \<comment> \<open>\<open>f"{c[0]} {c[1] if c[1].isdigit() else SPECIAL[c[1]]}"\<close>\<close>
  "disp c =
     (if isdigit (snd c) then Inr (fst c @ '' '' @ snd c)
      else (case map_of SPECIAL (snd c) of
              None \<Rightarrow> Inl KeyError
            | Some s \<Rightarrow> Inr (fst c @ '' '' @ s)))"

definition advance_turn :: "game \<Rightarrow> py_error + game" where
  "advance_turn g =
     (if players g = [] then Inl ZeroDivisionError
      else Inr (g\<lparr>current := (current g + direction g) mod int (length (players g))\<rparr>))"

subsection \<open>Persistence\<close>

definition save_games :: "world \<Rightarrow> world" where
  "save_games w = (if GAMES w = [] then w else w\<lparr>games_file := Some (GAMES w)\<rparr>)"

definition record_win :: "int \<Rightarrow> int \<Rightarrow> world \<Rightarrow> world" where
  \<comment> \<open>lines 486 to 489 of \<open>uno_play\<close>\<close>
  "record_win cid uid w =
     (let stats = stats_file w;
          chat_stats = (case map_of stats cid of None \<Rightarrow> [] | Some cs \<Rightarrow> cs);
          n = (case map_of chat_stats uid of None \<Rightarrow> 0 | Some k \<Rightarrow> k)
      in w\<lparr>stats_file := AList.update cid (AList.update uid (n + 1) chat_stats) stats\<rparr>)"

subsection \<open>Handlers before the game runs\<close>

text \<open>
  Each handler takes the process state, the chat \<open>cid\<close>, the user \<open>uid\<close> where it reads one,
  the clock \<open>now\<close> and the outcomes of the random calls, and returns the new process state
  with what it did.  Calls to the messaging API are taken to succeed.
\<close>

definition new_game :: "(card list \<Rightarrow> card list) \<Rightarrow> int \<Rightarrow> game" where
  "new_game shuffle now =
     \<lparr>players = [], hands = [], deck = create_deck shuffle, pile = [], current = 0,
      direction = 1, current_color = None, started = False, last_active = now\<rparr>"

definition uno_start :: "world \<Rightarrow> int \<Rightarrow> (card list \<Rightarrow> card list) \<Rightarrow> int \<Rightarrow> world \<times> outcome" where
  "uno_start w cid shuffle now =
     (save_games (w\<lparr>GAMES := AList.update cid (new_game shuffle now) (GAMES w)\<rparr>), Started)"

definition put_game :: "world \<Rightarrow> int \<Rightarrow> game \<Rightarrow> world" where
  \<comment> \<open>the game dictionary is mutated in place, so \<open>GAMES[cid]\<close> sees every change\<close>
  "put_game w cid g = w\<lparr>GAMES := AList.update cid g (GAMES w)\<rparr>"

definition uno_join :: "world \<Rightarrow> int \<Rightarrow> int \<Rightarrow> int \<Rightarrow> world \<times> outcome" where
  "uno_join w cid uid now =
     (case map_of (GAMES w) cid of
        None \<Rightarrow> (w, StartFirst)
      | Some g \<Rightarrow>
          if started g then (w, GameAlreadyStarted)
          else if uid \<in> set (players g) then (w, AlreadyJoined)
          else
            (let g' = g\<lparr>players := players g @ [uid], last_active := now\<rparr>
             in (save_games (put_game w cid g'), Joined (length (players g')))))"

fun deal :: "int list \<Rightarrow> game \<Rightarrow> game \<times> py_error option" where
  \<comment> \<open>\<open>for uid in game["players"]: game["hands"][uid] = [game["deck"].pop() for _ in range(7)]\<close>\<close>
  "deal [] g = (g, None)"
| "deal (uid # us) g =
     (case pop_many 7 (deck g) of
        (d, None) \<Rightarrow> (g\<lparr>deck := d\<rparr>, Some IndexError)
      | (d, Some cs) \<Rightarrow> deal us (g\<lparr>deck := d, hands := AList.update uid cs (hands g)\<rparr>))"

definition uno_begin :: "world \<Rightarrow> int \<Rightarrow> string \<Rightarrow> int \<Rightarrow> world \<times> outcome" where
  \<comment> \<open>\<open>choice\<close> is the outcome of \<open>random.choice(COLORS)\<close>\<close>
  "uno_begin w cid choice now =
     (case map_of (GAMES w) cid of
        None \<Rightarrow> (w, StartFirst)
      | Some g \<Rightarrow>
          if started g then (w, GameInProgress)
          else if length (players g) < 2 then (w, NeedPlayers)
          else
            (case deal (players g) g of
               (g1, Some e) \<Rightarrow> (put_game w cid g1, Raised e)
             | (g1, None) \<Rightarrow>
                 if deck g1 = [] then (put_game w cid g1, Raised IndexError)
                 else
                   (let top = last (deck g1);
                        g2 = g1\<lparr>deck := butlast (deck g1), pile := pile g1 @ [top],
                                current_color := Some (if fst top = ''wild'' then choice else fst top),
                                started := True, last_active := now\<rparr>;
                        w2 = save_games (put_game w cid g2)
                    in (case py_index (players g2) (current g2) of
                          None \<Rightarrow> (w2, Raised IndexError)
                        | Some first \<Rightarrow>
                            (case disp top of
                               Inl e \<Rightarrow> (w2, Raised e)
                             | Inr _ \<Rightarrow> (w2, Begun top))))))"

definition uno_reset :: "world \<Rightarrow> int \<Rightarrow> world \<times> outcome" where
  "uno_reset w cid =
     (if cid \<in> fst ` set (GAMES w)
      then (save_games (w\<lparr>GAMES := AList.delete cid (GAMES w)\<rparr>), ResetDone)
      else (w, NoGameToReset))"

definition uno_status :: "world \<Rightarrow> int \<Rightarrow> world \<times> outcome" where
  "uno_status w cid =
     (case map_of (GAMES w) cid of
        None \<Rightarrow> (w, NoActiveGame)
      | Some g \<Rightarrow>
          if started g then
            (case py_index (players g) (current g) of
               None \<Rightarrow> (w, Raised IndexError)
             | Some p \<Rightarrow>
                 (w, StatusRunning (length (players g)) p (current_color g)
                       (if pile g = [] then None else Some (last (pile g)))))
          else (w, StatusWaiting (length (players g))))"

subsection \<open>Playing a card\<close>

definition hand_of :: "game \<Rightarrow> int \<Rightarrow> card list" where
  \<comment> \<open>\<open>game["hands"].get(uid, [])\<close>\<close>
  "hand_of g uid = (case map_of (hands g) uid of None \<Rightarrow> [] | Some h \<Rightarrow> h)"

fun parse_args :: "string list \<Rightarrow> outcome + (card \<times> string option)" where
  \<comment> \<open>lines 413 to 429: the card named by the lowered arguments and the chosen color\<close>
  "parse_args [] = Inl Usage"
| "parse_args (a0 # rest) =
     (if a0 = ''wild'' \<or> a0 = ''wild4'' then
        (case rest of
           [] \<Rightarrow> Inl ChooseColor
         | a1 # _ \<Rightarrow>
             if a1 \<notin> set COLORS then Inl ChooseColor
             else Inr ((''wild'', a0), Some a1))
      else
        (case rest of
           [] \<Rightarrow> Inl (Raised IndexError)
         | a1 # _ \<Rightarrow> Inr ((a0, a1), None)))"

definition rejected :: "string option \<Rightarrow> string \<Rightarrow> card \<Rightarrow> bool" where
  \<comment> \<open>the condition of line 438\<close>
  "rejected top_color top_value c =
     (fst c \<noteq> ''wild'' \<and> Some (fst c) \<noteq> top_color \<and> snd c \<noteq> top_value)"

definition penalty :: "nat \<Rightarrow> game \<Rightarrow> game \<times> py_error option" where
  \<comment> \<open>lines 461 to 469 with k = 2, lines 471 to 479 with k = 4\<close>
  "penalty k g =
     (case advance_turn g of
        Inl e \<Rightarrow> (g, Some e)
      | Inr g1 \<Rightarrow>
          (case py_index (players g1) (current g1) of
             None \<Rightarrow> (g1, Some IndexError)
           | Some nxt \<Rightarrow>
               (case pop_many k (deck g1) of
                  (d, None) \<Rightarrow> (g1\<lparr>deck := d\<rparr>, Some IndexError)
                | (d, Some drawn) \<Rightarrow>
                    (case map_of (hands g1) nxt of
                       None \<Rightarrow> (g1\<lparr>deck := d\<rparr>, Some KeyError)
                     | Some h \<Rightarrow>
                         (let g2 = g1\<lparr>deck := d, hands := AList.update nxt (h @ drawn) (hands g1)\<rparr>
                          in (case advance_turn g2 of
                                Inl e \<Rightarrow> (g2, Some e)
                              | Inr g3 \<Rightarrow> (g3, None)))))))"

definition advance_twice :: "game \<Rightarrow> game \<times> py_error option" where
  "advance_twice g =
     (case advance_turn g of
        Inl e \<Rightarrow> (g, Some e)
      | Inr g1 \<Rightarrow> (case advance_turn g1 of Inl e \<Rightarrow> (g1, Some e) | Inr g2 \<Rightarrow> (g2, None)))"

definition advance_once :: "game \<Rightarrow> game \<times> py_error option" where
  "advance_once g = (case advance_turn g of Inl e \<Rightarrow> (g, Some e) | Inr g1 \<Rightarrow> (g1, None))"

definition play_effect :: "game \<Rightarrow> card \<Rightarrow> game \<times> py_error option" where
  \<comment> \<open>lines 452 to 481\<close>
  "play_effect g c =
     (if snd c = ''skip'' then advance_twice g
      else if snd c = ''reverse'' then
        (let g1 = g\<lparr>direction := direction g * (- 1)\<rparr>
         in if length (players g1) = 2 then advance_twice g1 else advance_once g1)
      else if snd c = ''draw2'' then penalty 2 g
      else if snd c = ''wild4'' then penalty 4 g
      else advance_once g)"

definition finish_play :: "world \<Rightarrow> int \<Rightarrow> int \<Rightarrow> game \<Rightarrow> world \<times> outcome" where
  \<comment> \<open>lines 484 to 497; \<open>hand\<close> is the list object stored under \<open>game["hands"][uid]\<close>,
      so it is read from the game as it is now\<close>
  "finish_play w cid uid g =
     (if hand_of g uid = [] then
        (save_games ((record_win cid uid w)\<lparr>GAMES := AList.delete cid (GAMES w)\<rparr>), Won uid)
      else
        (let w1 = save_games (put_game w cid g)
         in (case py_index (players g) (current g) of
               None \<Rightarrow> (w1, Raised IndexError)
             | Some nxt \<Rightarrow> (w1, NextTurn nxt))))"

definition place_card :: "game \<Rightarrow> int \<Rightarrow> card list \<Rightarrow> card \<Rightarrow> string option \<Rightarrow> int \<Rightarrow> game" where
  \<comment> \<open>lines 442 to 445: \<open>hand.remove(card)\<close> takes out the first occurrence\<close>
  "place_card g uid hand c chosen now =
     g\<lparr>hands := AList.update uid (remove1 c hand) (hands g), pile := pile g @ [c],
       current_color := (if fst c = ''wild'' then chosen else Some (fst c)),
       last_active := now\<rparr>"

definition play_card :: "world \<Rightarrow> int \<Rightarrow> int \<Rightarrow> game \<Rightarrow> card list \<Rightarrow> card \<Rightarrow> string option \<Rightarrow> int
    \<Rightarrow> world \<times> outcome" where
  \<comment> \<open>lines 442 to 497, once every check has passed; \<open>chosen_color\<close> is bound only in the
      wild branch of the argument parse\<close>
  "play_card w cid uid g hand c chosen now =
     (if fst c = ''wild'' \<and> chosen = None then
        (put_game w cid
           (g\<lparr>hands := AList.update uid (remove1 c hand) (hands g), pile := pile g @ [c]\<rparr>),
         Raised UnboundLocalError)
      else
           (let g2 = place_card g uid hand c chosen now
            in (case disp c of
                  Inl e \<Rightarrow> (put_game w cid g2, Raised e)
                | Inr _ \<Rightarrow>
                    (case play_effect g2 c of
                       (g3, Some e) \<Rightarrow> (put_game w cid g3, Raised e)
                     | (g3, None) \<Rightarrow> finish_play w cid uid g3))))"

definition uno_play :: "world \<Rightarrow> int \<Rightarrow> int \<Rightarrow> string list \<Rightarrow> int \<Rightarrow> world \<times> outcome" where
  "uno_play w cid uid context_args now =
     (case map_of (GAMES w) cid of
        None \<Rightarrow> (w, NotRunning)
      | Some g \<Rightarrow>
          if \<not> started g then (w, NotRunning)
          else
            (case py_index (players g) (current g) of
               None \<Rightarrow> (w, Raised IndexError)
             | Some p \<Rightarrow>
                 if p \<noteq> uid then (w, NotYourTurn)
                 else
                   (case parse_args (map lower context_args) of
                      Inl out \<Rightarrow> (w, out)
                    | Inr (c, chosen) \<Rightarrow>
                        (let hand = hand_of g uid
                         in if c \<notin> set hand then (w, NotHeld)
                            else if pile g = [] then (w, Raised IndexError)
                            else if rejected (current_color g) (snd (last (pile g))) c
                              then (w, InvalidCard)
                            else play_card w cid uid g hand c chosen now))))"

subsection \<open>Drawing a card\<close>

definition rebuild_deck :: "(card list \<Rightarrow> card list) \<Rightarrow> game \<Rightarrow> py_error + game" where
  \<comment> \<open>lines 521 to 525\<close>
  "rebuild_deck shuffle g =
     (if deck g \<noteq> [] then Inr g
      else if pile g = [] then Inl IndexError
      else Inr (g\<lparr>deck := shuffle (butlast (pile g)), pile := [last (pile g)]\<rparr>))"

definition uno_draw :: "world \<Rightarrow> int \<Rightarrow> int \<Rightarrow> (card list \<Rightarrow> card list) \<Rightarrow> int \<Rightarrow> world \<times> outcome" where
  "uno_draw w cid uid shuffle now =
     (case map_of (GAMES w) cid of
        None \<Rightarrow> (w, NotRunning)
      | Some g \<Rightarrow>
          if \<not> started g then (w, NotRunning)
          else
            (case py_index (players g) (current g) of
               None \<Rightarrow> (w, Raised IndexError)
             | Some p \<Rightarrow>
                 if p \<noteq> uid then (w, NotYourTurn)
                 else
                   (case rebuild_deck shuffle g of
                      Inl e \<Rightarrow> (w, Raised e)
                    | Inr g1 \<Rightarrow>
                        if deck g1 = [] then (put_game w cid g1, Raised IndexError)
                        else
                          (let c = last (deck g1); g2 = g1\<lparr>deck := butlast (deck g1)\<rparr>
                           in (case map_of (hands g2) uid of
                                 None \<Rightarrow> (put_game w cid g2, Raised KeyError)
                               | Some h \<Rightarrow>
                                   (let g3 = g2\<lparr>hands := AList.update uid (h @ [c]) (hands g2),
                                                last_active := now\<rparr>;
                                        w3 = save_games (put_game w cid g3)
                                    in (case disp c of
                                          Inl e \<Rightarrow> (w3, Raised e)
                                        | Inr _ \<Rightarrow>
                                            (case advance_turn g3 of
                                               Inl e \<Rightarrow> (w3, Raised e)
                                             | Inr g4 \<Rightarrow>
                                                 (case py_index (players g4) (current g4) of
                                                    None \<Rightarrow> (put_game w3 cid g4, Raised IndexError)
                                                  | Some nxt \<Rightarrow>
                                                      (put_game w3 cid g4, NextTurn nxt))))))))))"

subsection \<open>Totals and sample states\<close>

definition card_total :: "game \<Rightarrow> nat" where
  \<comment> \<open>cards in the deck, in the pile and in all hands\<close>
  "card_total g = length (deck g) + length (pile g) + sum_list (map (\<lambda>(uid, h). length h) (hands g))"

definition all_cards :: "game \<Rightarrow> card multiset" where
  "all_cards g = mset (deck g) + mset (pile g) + mset (concat (map snd (hands g)))"

definition known_value :: "string \<Rightarrow> bool" where
  \<comment> \<open>the values a card can show: a number, or a key of \<open>SPECIAL\<close>\<close>
  "known_value v = (isdigit v \<or> v \<in> fst ` set SPECIAL)"

definition legal :: "game \<Rightarrow> card \<Rightarrow> bool" where
  \<comment> \<open>the rule of section 4.1 of the specification, against the session's color and the
      value of the top card\<close>
  "legal g c = (fst c = ''wild'' \<or> current_color g = Some (fst c) \<or> snd c = snd (last (pile g)))"

definition durable :: "world \<Rightarrow> bool" where
  "durable w = (games_file w = Some (GAMES w))"

definition written :: "world \<Rightarrow> world \<Rightarrow> bool" where
  \<comment> \<open>what \<open>save_games\<close> leaves on disk after a handler took \<open>w\<close> to \<open>w'\<close>\<close>
  "written w w' = (if GAMES w' = [] then games_file w' = games_file w else durable w')"

definition fresh :: world where
  "fresh = \<lparr>GAMES = [], games_file = None, stats_file = []\<rparr>"

fun join_all :: "world \<Rightarrow> int \<Rightarrow> int list \<Rightarrow> world" where
  "join_all w cid [] = w"
| "join_all w cid (u # us) = join_all (fst (uno_join w cid u 0)) cid us"

definition table :: "(card list \<Rightarrow> card list) \<Rightarrow> world" where
  \<comment> \<open>chat 7 after \<open>/uno_start\<close>, fifteen \<open>/uno_join\<close> (users 1 to 15) and \<open>/uno_begin\<close>\<close>
  "table shuffle =
     fst (uno_begin (join_all (fst (uno_start fresh 7 shuffle 0)) 7
            [1, 2, 3, 4, 5, 6, 7, 8, 9, 10, 11, 12, 13, 14, 15]) 7 ''red'' 0)"

definition duel :: game where
  "duel =
     \<lparr>players = [10, 20],
      hands = [(10, [(''red'', ''5''), (''red'', ''reverse''), (''wild'', ''wild'')]),
               (20, [(''blue'', ''3''), (''blue'', ''draw2'')])],
      deck = [],
      pile = [(''yellow'', ''2''), (''green'', ''4''), (''wild'', ''wild'')],
      current = 0, direction = 1, current_color = Some ''red'', started = True,
      last_active = 0\<rparr>"

definition duel_world :: world where
  "duel_world = \<lparr>GAMES = [(7, duel)], games_file = Some [(7, duel)], stats_file = []\<rparr>"

definition endgame :: game where
  \<comment> \<open>two players, all 108 cards: user 10 holds one wild4, the deck holds one card\<close>
  "endgame =
     \<lparr>players = [10, 20],
      hands = [(10, [last full_deck]), (20, take 7 full_deck)],
      deck = take 1 (drop 7 full_deck),
      pile = drop 8 (butlast full_deck),
      current = 0, direction = 1, current_color = Some ''blue'', started = True,
      last_active = 0\<rparr>"

definition endgame_world :: world where
  "endgame_world = \<lparr>GAMES = [(7, endgame)], games_file = Some [(7, endgame)], stats_file = []\<rparr>"

text \<open>
  The game of \<open>table\<close> in closed form, for a shuffled deck \<open>D\<close> of 108 cards: each player
  holds the seven cards popped for them, the next card is on the pile, two cards are left.
\<close>

definition dealt :: "card list \<Rightarrow> game" where
  "dealt D =
     \<lparr>players = [1, 2, 3, 4, 5, 6, 7, 8, 9, 10, 11, 12, 13, 14, 15],
      hands =
        [(1, rev (drop 101 D)), (2, rev (drop 94 (take 101 D))),
         (3, rev (drop 87 (take 94 D))), (4, rev (drop 80 (take 87 D))),
         (5, rev (drop 73 (take 80 D))), (6, rev (drop 66 (take 73 D))),
         (7, rev (drop 59 (take 66 D))), (8, rev (drop 52 (take 59 D))),
         (9, rev (drop 45 (take 52 D))), (10, rev (drop 38 (take 45 D))),
         (11, rev (drop 31 (take 38 D))), (12, rev (drop 24 (take 31 D))),
         (13, rev (drop 17 (take 24 D))), (14, rev (drop 10 (take 17 D))),
         (15, rev (drop 3 (take 10 D)))],
      deck = butlast (take 3 D), pile = [last (take 3 D)], current = 0, direction = 1,
      current_color = Some (if fst (last (take 3 D)) = ''wild'' then ''red'' else fst (last (take 3 D))),
      started = True, last_active = 0\<rparr>"

text \<open>
  A table whose deck was shuffled by a rotation; the first player has played their red 5.
\<close>

definition short_deck_world :: world where
  "short_deck_world = fst (uno_play (table (rotate 10)) 7 1 [''red'', ''5''] 1)"

definition after_red5 :: game where
  "after_red5 =
     (place_card (dealt (create_deck (rotate 10))) 1
        (hand_of (dealt (create_deck (rotate 10))) 1) (''red'', ''5'') None 1)\<lparr>current := 1\<rparr>"

definition after_wild4 :: game where
  "after_wild4 =
     (place_card after_red5 2 (hand_of after_red5 2) (''wild'', ''wild4'') (Some ''blue'') 2)
       \<lparr>current := 2, deck := []\<rparr>"

definition endgame_after :: game where
  "endgame_after =
     (place_card endgame 10 (hand_of endgame 10) (''wild'', ''wild4'') (Some ''red'') 1)
       \<lparr>current := 1, deck := []\<rparr>"

section \<open>Properties\<close>

subsection \<open>Basic facts\<close>

lemma GAMES_save_games [simp]: "GAMES (save_games w) = GAMES w"
  by (simp add: save_games_def)

lemma stats_save_games [simp]: "stats_file (save_games w) = stats_file w"
  by (simp add: save_games_def)

lemma finish_play_outcome:
  "finish_play w cid uid g = (w', out) \<Longrightarrow>
     out = Won uid \<or> (\<exists>n. out = NextTurn n) \<or> (\<exists>e. out = Raised e)"
  by (auto simp: finish_play_def Let_def split: if_splits option.splits)

lemma play_card_outcome:
  "play_card w cid uid g hand c chosen now = (w', out) \<Longrightarrow>
     out = Won uid \<or> (\<exists>n. out = NextTurn n) \<or> (\<exists>e. out = Raised e)"
  by (auto simp: play_card_def Let_def split: if_splits option.splits sum.splits prod.splits
           dest: finish_play_outcome)

lemma parse_args_outcome:
  "parse_args args = Inl out \<Longrightarrow> out = Usage \<or> out = ChooseColor \<or> out = Raised IndexError"
  by (cases args) (auto split: if_splits list.splits)

lemma uno_play_unchanged_or_played:
  "uno_play w cid uid args now = (w', out) \<Longrightarrow>
     (w' = w \<and> out \<in> {NotRunning, NotYourTurn, Usage, ChooseColor, NotHeld, InvalidCard,
                            Raised IndexError})
     \<or> (\<exists>g h c ch. play_card w cid uid g h c ch now = (w', out))"
  by (auto simp: uno_play_def Let_def split: if_splits option.splits sum.splits prod.splits
        dest: parse_args_outcome)

lemma legal_iff: "legal g c = (\<not> rejected (current_color g) (snd (last (pile g))) c)"
  by (auto simp: legal_def rejected_def)

lemma duel_facts:
  "map_of (GAMES duel_world) 7 = Some duel" "started duel"
  "py_index (players duel) (current duel) = Some 10"
  "pile duel \<noteq> []"
  "hand_of duel 10 = [(''red'', ''5''), (''red'', ''reverse''), (''wild'', ''wild'')]"
  by (simp_all add: duel_world_def duel_def py_index_def hand_of_def)

subsection \<open>Legality of a play\<close>

text \<open>
  C2.  In a started game, on the caller's turn and for a card the caller holds, \<open>uno_play\<close>
  rejects the card as invalid exactly when it is not wild, its color differs from the
  session's \<open>current_color\<close> and its value differs from the value of the top card of the
  pile; otherwise the card is played.  The color stored in the top card is never read, so a
  declared-color wild on top is treated like any other top card.
\<close>

theorem play_legality:
  assumes "map_of (GAMES w) cid = Some g" and "started g"
    and "py_index (players g) (current g) = Some uid"
    and "parse_args (map lower args) = Inr (c, chosen)"
    and "c \<in> set (hand_of g uid)" and "pile g \<noteq> []"
  shows "uno_play w cid uid args now =
           (if fst c = ''wild'' \<or> current_color g = Some (fst c) \<or> snd c = snd (last (pile g))
            then play_card w cid uid g (hand_of g uid) c chosen now
            else (w, InvalidCard))
         \<and> snd (play_card w cid uid g (hand_of g uid) c chosen now) \<noteq> InvalidCard"
proof -
  have "snd (play_card w cid uid g (hand_of g uid) c chosen now) \<noteq> InvalidCard"
    using play_card_outcome [of w cid uid g "hand_of g uid" c chosen now]
    by (cases "play_card w cid uid g (hand_of g uid) c chosen now") auto
  moreover have "uno_play w cid uid args now =
           (if fst c = ''wild'' \<or> current_color g = Some (fst c) \<or> snd c = snd (last (pile g))
            then play_card w cid uid g (hand_of g uid) c chosen now
            else (w, InvalidCard))"
    using assms by (auto simp: uno_play_def rejected_def Let_def)
  ultimately show ?thesis by simp
qed

theorem play_legality_witness:
  "map_of (GAMES duel_world) 7 = Some duel \<and> started duel
   \<and> py_index (players duel) (current duel) = Some 10
   \<and> parse_args (map lower [''red'', ''5'']) = Inr ((''red'', ''5''), None)
   \<and> (''red'', ''5'') \<in> set (hand_of duel 10) \<and> pile duel \<noteq> []
   \<and> last (pile duel) = (''wild'', ''wild'') \<and> current_color duel = Some ''red''
   \<and> uno_play duel_world 7 10 [''red'', ''5''] 1 =
       play_card duel_world 7 10 duel (hand_of duel 10) (''red'', ''5'') None 1
   \<and> snd (uno_play duel_world 7 10 [''red'', ''5''] 1) \<noteq> InvalidCard"
proof -
  have parsed: "parse_args (map lower [''red'', ''5'']) = Inr ((''red'', ''5''), None)"
    by (simp add: lower_def lower_char_def)
  have held: "(''red'', ''5'') \<in> set (hand_of duel 10)"
    by (simp add: duel_facts)
  have top: "last (pile duel) = (''wild'', ''wild'')" "current_color duel = Some ''red''"
    by (simp_all add: duel_def)
  from play_legality [OF duel_facts(1) duel_facts(2) duel_facts(3) parsed held duel_facts(4), of 1]
  show ?thesis using parsed held top duel_facts by simp
qed

subsection \<open>Validation before mutation\<close>

text \<open>
  C3.  Whenever \<open>uno_play\<close> answers with one of its validation errors (game not running, not
  the caller's turn, usage, color required, card not held, invalid card), the whole process
  state is the one it started from.  Each failed check gives its own answer: no session or a
  session not started gives \<open>NotRunning\<close>; another player's turn gives \<open>NotYourTurn\<close>; a wild
  without one of the four colors gives \<open>ChooseColor\<close>; a card the caller does not hold gives
  \<open>NotHeld\<close>; a held card that fails the legality rule gives \<open>InvalidCard\<close>.
\<close>

theorem play_all_or_nothing:
  assumes "uno_play w cid uid args now = (w', out)"
  shows "(out \<in> {NotRunning, NotYourTurn, Usage, ChooseColor, NotHeld, InvalidCard} \<longrightarrow> w' = w)
    \<and> (map_of (GAMES w) cid = None \<longrightarrow> out = NotRunning \<and> w' = w)
    \<and> (\<forall>g. map_of (GAMES w) cid = Some g \<and> \<not> started g \<longrightarrow> out = NotRunning \<and> w' = w)
    \<and> (\<forall>g p. map_of (GAMES w) cid = Some g \<and> started g
            \<and> py_index (players g) (current g) = Some p \<and> p \<noteq> uid
          \<longrightarrow> out = NotYourTurn \<and> w' = w)
    \<and> (\<forall>g a rest. map_of (GAMES w) cid = Some g \<and> started g
            \<and> py_index (players g) (current g) = Some uid
            \<and> map lower args = a # rest \<and> (a = ''wild'' \<or> a = ''wild4'')
            \<and> (rest = [] \<or> hd rest \<notin> set COLORS)
          \<longrightarrow> out = ChooseColor \<and> w' = w)
    \<and> (\<forall>g c ch. map_of (GAMES w) cid = Some g \<and> started g
            \<and> py_index (players g) (current g) = Some uid
            \<and> parse_args (map lower args) = Inr (c, ch) \<and> c \<notin> set (hand_of g uid)
          \<longrightarrow> out = NotHeld \<and> w' = w)
    \<and> (\<forall>g c ch. map_of (GAMES w) cid = Some g \<and> started g
            \<and> py_index (players g) (current g) = Some uid
            \<and> parse_args (map lower args) = Inr (c, ch) \<and> c \<in> set (hand_of g uid)
            \<and> pile g \<noteq> [] \<and> \<not> legal g c
          \<longrightarrow> out = InvalidCard \<and> w' = w)"
proof -
  have unchanged:
    "out \<in> {NotRunning, NotYourTurn, Usage, ChooseColor, NotHeld, InvalidCard} \<longrightarrow> w' = w"
    using uno_play_unchanged_or_played [OF assms] by (auto dest: play_card_outcome)
  have no_session: "map_of (GAMES w) cid = None \<longrightarrow> out = NotRunning \<and> w' = w"
    using assms by (auto simp: uno_play_def)
  have not_started:
    "\<forall>g. map_of (GAMES w) cid = Some g \<and> \<not> started g \<longrightarrow> out = NotRunning \<and> w' = w"
    using assms by (auto simp: uno_play_def)
  have not_turn: "\<forall>g p. map_of (GAMES w) cid = Some g \<and> started g
            \<and> py_index (players g) (current g) = Some p \<and> p \<noteq> uid
          \<longrightarrow> out = NotYourTurn \<and> w' = w"
    using assms by (auto simp: uno_play_def)
  have no_color: "\<forall>g a rest. map_of (GAMES w) cid = Some g \<and> started g
            \<and> py_index (players g) (current g) = Some uid
            \<and> map lower args = a # rest \<and> (a = ''wild'' \<or> a = ''wild4'')
            \<and> (rest = [] \<or> hd rest \<notin> set COLORS)
          \<longrightarrow> out = ChooseColor \<and> w' = w"
    using assms by (auto simp: uno_play_def split: list.splits)
  have not_held: "\<forall>g c ch. map_of (GAMES w) cid = Some g \<and> started g
            \<and> py_index (players g) (current g) = Some uid
            \<and> parse_args (map lower args) = Inr (c, ch) \<and> c \<notin> set (hand_of g uid)
          \<longrightarrow> out = NotHeld \<and> w' = w"
    using assms by (auto simp: uno_play_def Let_def)
  have illegal: "\<forall>g c ch. map_of (GAMES w) cid = Some g \<and> started g
            \<and> py_index (players g) (current g) = Some uid
            \<and> parse_args (map lower args) = Inr (c, ch) \<and> c \<in> set (hand_of g uid)
            \<and> pile g \<noteq> [] \<and> \<not> legal g c
          \<longrightarrow> out = InvalidCard \<and> w' = w"
    using assms by (auto simp: uno_play_def Let_def legal_iff)
  from unchanged no_session not_started not_turn no_color not_held illegal
  show ?thesis by blast
qed

theorem play_all_or_nothing_witness:
  "uno_play duel_world 7 10 [''blue'', ''3''] 1 = (duel_world, NotHeld)
   \<and> uno_play duel_world 7 20 [''blue'', ''3''] 1 = (duel_world, NotYourTurn)
   \<and> uno_play duel_world 8 10 [''red'', ''5''] 1 = (duel_world, NotRunning)"
proof -
  have parsed: "parse_args (map lower [''blue'', ''3'']) = Inr ((''blue'', ''3''), None)"
    by (simp add: lower_def lower_char_def)
  have absent: "(''blue'', ''3'') \<notin> set (hand_of duel 10)"
    by (simp add: duel_facts)
  have other: "map_of (GAMES duel_world) 8 = None"
    by (simp add: duel_world_def)
  have a: "snd (uno_play duel_world 7 10 [''blue'', ''3''] 1) = NotHeld
           \<and> fst (uno_play duel_world 7 10 [''blue'', ''3''] 1) = duel_world"
    using play_all_or_nothing [of duel_world 7 10 "[''blue'', ''3'']" 1
        "fst (uno_play duel_world 7 10 [''blue'', ''3''] 1)"
        "snd (uno_play duel_world 7 10 [''blue'', ''3''] 1)"]
      duel_facts parsed absent by simp
  have b: "snd (uno_play duel_world 7 20 [''blue'', ''3''] 1) = NotYourTurn
           \<and> fst (uno_play duel_world 7 20 [''blue'', ''3''] 1) = duel_world"
    using play_all_or_nothing [of duel_world 7 20 "[''blue'', ''3'']" 1
        "fst (uno_play duel_world 7 20 [''blue'', ''3''] 1)"
        "snd (uno_play duel_world 7 20 [''blue'', ''3''] 1)"]
      duel_facts by simp
  have c: "snd (uno_play duel_world 8 10 [''red'', ''5''] 1) = NotRunning
           \<and> fst (uno_play duel_world 8 10 [''red'', ''5''] 1) = duel_world"
    using play_all_or_nothing [of duel_world 8 10 "[''red'', ''5'']" 1
        "fst (uno_play duel_world 8 10 [''red'', ''5''] 1)"
        "snd (uno_play duel_world 8 10 [''red'', ''5''] 1)"]
      other by simp
  from a b c show ?thesis by (simp add: prod_eq_iff)
qed

subsection \<open>A play with a single argument\<close>

text \<open>
  C10.  In a started game, on the caller's turn, a play with exactly one argument never
  changes the process state.  When the lowered argument is not \<open>wild\<close> or \<open>wild4\<close>, reading
  the second argument raises IndexError before any mutation; when it is, the handler asks for
  a color instead.
\<close>

theorem single_token_play:
  assumes "map_of (GAMES w) cid = Some g" and "started g"
    and "py_index (players g) (current g) = Some uid"
  shows "uno_play w cid uid [t] now =
           (w, if lower t = ''wild'' \<or> lower t = ''wild4'' then ChooseColor
               else Raised IndexError)"
  using assms by (simp add: uno_play_def)

theorem single_token_play_witness:
  "map_of (GAMES duel_world) 7 = Some duel \<and> started duel
   \<and> py_index (players duel) (current duel) = Some 10
   \<and> uno_play duel_world 7 10 [''red''] 1 = (duel_world, Raised IndexError)"
  using single_token_play [of duel_world 7 duel 10 "''red''" 1] duel_facts
  by (simp add: lower_def lower_char_def)

subsection \<open>Starting over an existing session\<close>

lemma map_of_put_game [simp]: "map_of (GAMES (put_game w cid g)) cid = Some g"
  by (simp add: put_game_def update_conv')

lemma durable_save_put [simp]: "durable (save_games (put_game w cid g))"
  by (simp add: durable_def save_games_def put_game_def)

lemma new_game_not_duel: "new_game id 5 \<noteq> duel"
proof
  assume "new_game id 5 = duel"
  then have "started (new_game id 5) = started duel" by simp
  then show False by (simp add: new_game_def duel_def)
qed

text \<open>
  C4, as the specification states it, fails: \<open>uno_start\<close> in a chat that already has a
  running game answers \<open>Started\<close> and stores a new, empty game in its place.
\<close>

theorem start_replaces_counterexample:
  "map_of (GAMES duel_world) 7 = Some duel
   \<and> snd (uno_start duel_world 7 id 5) = Started
   \<and> map_of (GAMES (fst (uno_start duel_world 7 id 5))) 7 = Some (new_game id 5)
   \<and> new_game id 5 \<noteq> duel"
  using new_game_not_duel by (simp add: uno_start_def duel_world_def)

text \<open>
  C4, amended.  \<open>uno_start\<close> never fails: whether or not the chat already has a session, it
  stores a new session for the chat (no players, no hands, an empty pile, not started, the
  shuffled full deck), replacing any session that was there, and leaves the sessions of all
  other chats as they were.
\<close>

theorem start_always_fresh:
  "snd (uno_start w cid shuffle now) = Started
   \<and> map_of (GAMES (fst (uno_start w cid shuffle now))) cid = Some (new_game shuffle now)
   \<and> players (new_game shuffle now) = [] \<and> hands (new_game shuffle now) = []
   \<and> pile (new_game shuffle now) = [] \<and> \<not> started (new_game shuffle now)
   \<and> deck (new_game shuffle now) = shuffle full_deck
   \<and> (\<forall>other. other \<noteq> cid \<longrightarrow>
         map_of (GAMES (fst (uno_start w cid shuffle now))) other = map_of (GAMES w) other)"
  by (simp add: uno_start_def update_conv' new_game_def create_deck_def)

theorem start_always_fresh_witness:
  "map_of (GAMES (fst (uno_start duel_world 7 id 5))) 7 = Some (new_game id 5)
   \<and> (8::int) \<noteq> 7
   \<and> map_of (GAMES (fst (uno_start duel_world 7 id 5))) 8 = map_of (GAMES duel_world) 8"
  using start_always_fresh [of duel_world 7 id 5] by simp

subsection \<open>What reaches the games file\<close>

lemma finish_play_written:
  "finish_play w cid uid g = (w', out) \<Longrightarrow>
     (\<forall>n. out = NextTurn n \<longrightarrow> durable w')
     \<and> (out = Won uid \<longrightarrow> written w w' \<and> map_of (GAMES w') cid = None)"
  by (auto simp: finish_play_def Let_def written_def durable_def save_games_def record_win_def
        put_game_def delete_conv' split: if_splits option.splits)

lemma play_card_written:
  "play_card w cid uid g hand c chosen now = (w', out) \<Longrightarrow>
     (\<forall>n. out = NextTurn n \<longrightarrow> durable w')
     \<and> (out = Won uid \<longrightarrow> written w w' \<and> map_of (GAMES w') cid = None)"
  by (auto simp: play_card_def Let_def split: if_splits sum.splits prod.splits option.splits
        dest: finish_play_written)

lemma uno_play_written:
  "uno_play w cid uid args now = (w', out) \<Longrightarrow>
     (\<forall>n. out = NextTurn n \<longrightarrow> durable w')
     \<and> (out = Won uid \<longrightarrow> written w w' \<and> map_of (GAMES w') cid = None)"
  using uno_play_unchanged_or_played [of w cid uid args now w' out]
  by (auto dest: play_card_written)

lemma uno_join_written: "uno_join w cid uid now = (w', Joined n) \<Longrightarrow> durable w'"
  by (auto simp: uno_join_def Let_def split: option.splits if_splits)

lemma uno_begin_written: "uno_begin w cid choice now = (w', Begun c) \<Longrightarrow> durable w'"
  by (auto simp: uno_begin_def Let_def split: option.splits if_splits prod.splits sum.splits)

lemma uno_start_written: "durable (fst (uno_start w cid shuffle now))"
  by (simp add: uno_start_def durable_def save_games_def)

lemma uno_reset_written:
  "uno_reset w cid = (w', ResetDone) \<Longrightarrow> written w w' \<and> map_of (GAMES w') cid = None"
  by (auto simp: uno_reset_def written_def durable_def save_games_def delete_conv'
        split: if_splits)

text \<open>
  C6, as the specification states it, fails: resetting the only live session empties
  \<open>GAMES\<close>, \<open>save_games\<close> returns at its first line without writing, and the games file
  still holds the deleted session.
\<close>

theorem reset_last_session_counterexample:
  "durable duel_world
   \<and> snd (uno_reset duel_world 7) = ResetDone
   \<and> GAMES (fst (uno_reset duel_world 7)) = []
   \<and> games_file (fst (uno_reset duel_world 7)) = Some [(7, duel)]
   \<and> \<not> durable (fst (uno_reset duel_world 7))"
  by (simp add: uno_reset_def duel_world_def durable_def save_games_def)

text \<open>
  C6, amended.  After \<open>uno_start\<close>, after a successful \<open>uno_join\<close> or \<open>uno_begin\<close> and after a
  \<open>uno_play\<close> that passes the turn, the games file holds exactly \<open>GAMES\<close>.  After a winning
  play or a reset the session is gone from \<open>GAMES\<close>; the games file holds exactly \<open>GAMES\<close> when
  another session is still live, and is left as it was (the write is skipped) when none is.
\<close>

theorem write_after_mutate:
  "durable (fst (uno_start w cid shuffle now))
   \<and> (\<forall>w' n. uno_join w cid uid now = (w', Joined n) \<longrightarrow> durable w')
   \<and> (\<forall>w' c. uno_begin w cid choice now = (w', Begun c) \<longrightarrow> durable w')
   \<and> (\<forall>w' n. uno_play w cid uid args now = (w', NextTurn n) \<longrightarrow> durable w')
   \<and> (\<forall>w'. uno_play w cid uid args now = (w', Won uid) \<longrightarrow>
         map_of (GAMES w') cid = None
         \<and> (if GAMES w' = [] then games_file w' = games_file w else durable w'))
   \<and> (\<forall>w'. uno_reset w cid = (w', ResetDone) \<longrightarrow>
         map_of (GAMES w') cid = None
         \<and> (if GAMES w' = [] then games_file w' = games_file w else durable w'))"
  using uno_start_written [of w cid shuffle now] uno_join_written [of w cid uid now]
    uno_begin_written [of w cid choice now] uno_play_written [of w cid uid args now]
    uno_reset_written [of w cid]
  by (simp add: written_def)

theorem write_after_mutate_witness:
  "uno_play duel_world 7 10 [''red'', ''5''] 1
     = (fst (uno_play duel_world 7 10 [''red'', ''5''] 1), NextTurn 20)
   \<and> durable (fst (uno_play duel_world 7 10 [''red'', ''5''] 1))"
proof -
  have "snd (uno_play duel_world 7 10 [''red'', ''5''] 1) = NextTurn 20"
    by code_simp
  then have run: "uno_play duel_world 7 10 [''red'', ''5''] 1
     = (fst (uno_play duel_world 7 10 [''red'', ''5''] 1), NextTurn 20)"
    by (simp add: prod_eq_iff)
  with write_after_mutate [where w = duel_world and cid = 7 and uid = 10 and now = 1
      and args = "[''red'', ''5'']"]
  show ?thesis by blast
qed

subsection \<open>Drawing from an empty deck\<close>

lemma py_index_mod:
  assumes "xs \<noteq> []"
  shows "py_index xs (i mod int (length xs)) = Some (xs ! nat (i mod int (length xs)))"
  using assms by (simp add: py_index_def)

lemma py_index_nonempty: "py_index xs i = Some x \<Longrightarrow> xs \<noteq> []"
  by (auto simp: py_index_def split: if_splits)

lemma disp_known: "known_value (snd c) \<Longrightarrow> \<exists>s. disp c = Inr s"
  by (auto simp: known_value_def disp_def SPECIAL_def)

text \<open>
  C7.  In a started game whose deck is empty and whose pile holds at least two cards, a draw
  by the current player succeeds: the pile keeps only its former top card, the other pile
  cards, shuffled, become the deck, the last card of that deck goes to the end of the
  player's hand, and the turn index moves one step in the current direction.  The shuffle is
  any rearrangement of the cards; the player has a hand and every pile card shows a known
  value, as in every game dealt from \<open>create_deck\<close>.
\<close>

theorem draw_reshuffles:
  assumes "map_of (GAMES w) cid = Some g" and "started g"
    and "py_index (players g) (current g) = Some uid"
    and "deck g = []" and "2 \<le> length (pile g)"
    and "map_of (hands g) uid = Some h"
    and "mset (shuffle (butlast (pile g))) = mset (butlast (pile g))"
    and "\<forall>c \<in> set (pile g). known_value (snd c)"
  shows "\<exists>w' g' c nxt.
           uno_draw w cid uid shuffle now = (w', NextTurn nxt)
         \<and> rebuild_deck shuffle g = Inr (g\<lparr>deck := shuffle (butlast (pile g)), pile := [last (pile g)]\<rparr>)
         \<and> map_of (GAMES w') cid = Some g'
         \<and> pile g' = [last (pile g)]
         \<and> add_mset c (mset (deck g')) = mset (butlast (pile g))
         \<and> map_of (hands g') uid = Some (h @ [c])
         \<and> current g' = (current g + direction g) mod int (length (players g))
         \<and> py_index (players g') (current g') = Some nxt"
proof -
  let ?d = "shuffle (butlast (pile g))"
  let ?c = "last ?d"
  have pne: "pile g \<noteq> []" using assms(5) by auto
  have "butlast (pile g) \<noteq> []" using assms(5) by (cases "pile g" rule: rev_cases) auto
  then have "mset ?d \<noteq> {#}" using assms(7) by simp
  then have dne: "?d \<noteq> []" by auto
  have rb: "rebuild_deck shuffle g = Inr (g\<lparr>deck := ?d, pile := [last (pile g)]\<rparr>)"
    using assms(4) pne by (simp add: rebuild_deck_def)
  have "?c \<in> set ?d" using dne by simp
  then have "?c \<in># mset ?d" by simp
  then have "?c \<in># mset (butlast (pile g))" using assms(7) by simp
  then have "?c \<in> set (pile g)" by (auto dest: in_set_butlastD)
  then obtain s where ds: "disp ?c = Inr s" using assms(8) disp_known by blast
  have plne: "players g \<noteq> []" using assms(3) by (rule py_index_nonempty)
  let ?n = "(current g + direction g) mod int (length (players g))"
  let ?g3 = "g\<lparr>pile := [last (pile g)], deck := butlast ?d,
               hands := AList.update uid (h @ [?c]) (hands g), last_active := now\<rparr>"
  let ?g4 = "?g3\<lparr>current := ?n\<rparr>"
  let ?w' = "put_game (save_games (put_game w cid ?g3)) cid ?g4"
  have idx: "py_index (players ?g4) (current ?g4) = Some (players g ! nat ?n)"
    using py_index_mod [OF plne] by simp
  have run: "uno_draw w cid uid shuffle now = (?w', NextTurn (players g ! nat ?n))"
    using assms(1,2,3,6) rb dne ds plne
    by (simp add: uno_draw_def Let_def advance_turn_def py_index_mod)
  have "add_mset ?c (mset (butlast ?d)) = mset ?d"
    using dne by (metis append_butlast_last_id mset.simps(2) mset_append union_mset_add_mset_right add.right_neutral mset.simps(1))
  then have ms: "add_mset ?c (mset (deck ?g4)) = mset (butlast (pile g))"
    using assms(7) by simp
  have "map_of (GAMES ?w') cid = Some ?g4"
    by (simp add: put_game_def update_conv')
  moreover have "map_of (hands ?g4) uid = Some (h @ [?c])" by (simp add: update_conv')
  ultimately show ?thesis using run rb ms idx by (intro exI [of _ ?w'] exI [of _ ?g4] exI [of _ ?c] exI [of _ "players g ! nat ?n"]) simp
qed

theorem draw_reshuffles_witness:
  "map_of (GAMES duel_world) 7 = Some duel \<and> started duel
   \<and> py_index (players duel) (current duel) = Some 10
   \<and> deck duel = [] \<and> 2 \<le> length (pile duel)
   \<and> map_of (hands duel) 10 = Some [(''red'', ''5''), (''red'', ''reverse''), (''wild'', ''wild'')]
   \<and> mset (rev (butlast (pile duel))) = mset (butlast (pile duel))
   \<and> list_all (\<lambda>c. known_value (snd c)) (pile duel)
   \<and> (\<exists>w' g' c nxt.
           uno_draw duel_world 7 10 rev 1 = (w', NextTurn nxt)
         \<and> map_of (GAMES w') 7 = Some g'
         \<and> pile g' = [(''wild'', ''wild'')]
         \<and> add_mset c (mset (deck g')) = mset [(''yellow'', ''2''), (''green'', ''4'')]
         \<and> map_of (hands g') 10
              = Some ([(''red'', ''5''), (''red'', ''reverse''), (''wild'', ''wild'')] @ [c])
         \<and> current g' = 1)"
proof -
  have h5: "2 \<le> length (pile duel)" and h4: "deck duel = []"
    and h6: "map_of (hands duel) 10
              = Some [(''red'', ''5''), (''red'', ''reverse''), (''wild'', ''wild'')]"
    and pl: "pile duel = [(''yellow'', ''2''), (''green'', ''4''), (''wild'', ''wild'')]"
    and cur: "current duel = 0" "direction duel = 1" "players duel = [10, 20]"
    by (simp_all add: duel_def)
  have h7: "mset (rev (butlast (pile duel))) = mset (butlast (pile duel))" by simp
  have h8: "\<forall>c \<in> set (pile duel). known_value (snd c)"
    by (simp add: pl known_value_def isdigit_def SPECIAL_def)
  from draw_reshuffles [where shuffle = rev and now = 1,
      OF duel_facts(1) duel_facts(2) duel_facts(3) h4 h5 h6 h7 h8]
  show ?thesis using duel_facts h4 h5 h6 h7 h8 by (simp add: pl cur list_all_iff, blast)
qed

subsection \<open>Playing a reverse\<close>

lemma parse_args_wild:
  "parse_args xs = Inr (c, ch) \<Longrightarrow> fst c = ''wild'' \<Longrightarrow> ch \<noteq> None \<and> snd c \<in> {''wild'', ''wild4''}"
  by (cases xs) (auto split: if_splits list.splits)

lemma hand_of_place [simp]: "hand_of (place_card g uid h c ch now) uid = remove1 c h"
  by (simp add: hand_of_def place_card_def update_conv')

text \<open>
  C9.  In a started game, when the current player plays a reverse card that they hold and
  that is legal, the game handed to the win check has its direction negated; with exactly
  two players the turn index is the one before the play, otherwise it is one step from it
  in the new direction.  Unless the play emptied the player's hand, this is the game stored
  for the chat afterwards.
\<close>

theorem reverse_effect:
  assumes "map_of (GAMES w) cid = Some g" and "started g"
    and "0 \<le> current g" and "current g < int (length (players g))"
    and "players g ! nat (current g) = uid"
    and "parse_args (map lower args) = Inr ((col, ''reverse''), ch)"
    and "(col, ''reverse'') \<in> set (hand_of g uid)"
    and "pile g \<noteq> []" and "legal g (col, ''reverse'')"
  shows "\<exists>g'. uno_play w cid uid args now = finish_play w cid uid g'
     \<and> play_effect (place_card g uid (hand_of g uid) (col, ''reverse'') ch now) (col, ''reverse'')
         = (g', None)
     \<and> direction g' = - direction g
     \<and> current g' = (if length (players g) = 2 then current g
                      else (current g - direction g) mod int (length (players g)))
     \<and> players g' = players g
     \<and> (remove1 (col, ''reverse'') (hand_of g uid) \<noteq> [] \<longrightarrow>
          map_of (GAMES (fst (uno_play w cid uid args now))) cid = Some g')"
proof -
  let ?c = "(col, ''reverse'')"
  let ?g2 = "place_card g uid (hand_of g uid) ?c ch now"
  have notwild: "col \<noteq> ''wild''"
    using parse_args_wild [OF assms(6)] by auto
  have idx: "py_index (players g) (current g) = Some uid"
    using assms(3,4,5) by (simp add: py_index_def)
  have plne: "players g \<noteq> []" using assms(4) assms(3) by auto
  have dsp: "disp ?c = Inr (col @ '' '' @ ''reverse'')"
    by (simp add: disp_def isdigit_def SPECIAL_def)
  obtain g' where eff: "play_effect ?g2 ?c = (g', None)"
    and dir: "direction g' = - direction g"
    and cur: "current g' = (if length (players g) = 2 then current g
                      else (current g - direction g) mod int (length (players g)))"
    and pls: "players g' = players g"
    and hnd: "hand_of g' uid = remove1 ?c (hand_of g uid)"
  proof (cases "length (players g) = 2")
    case True
    let ?g' = "?g2\<lparr>direction := - direction g,
         current := ((current g - direction g) mod 2 - direction g) mod 2\<rparr>"
    have "current g = 0 \<or> current g = 1" using assms(3,4) True by auto
    then have "((current g - direction g) mod 2 - direction g) mod 2 = current g"
      by presburger
    moreover have "play_effect ?g2 ?c = (?g', None)"
      using True plne
      by (simp add: play_effect_def advance_twice_def advance_turn_def place_card_def Let_def)
    ultimately show ?thesis using that [of ?g'] True
      by (simp add: place_card_def hand_of_def update_conv')
  next
    case False
    let ?g' = "?g2\<lparr>direction := - direction g,
         current := (current g - direction g) mod int (length (players g))\<rparr>"
    have "play_effect ?g2 ?c = (?g', None)"
      using False plne
      by (simp add: play_effect_def advance_once_def advance_turn_def place_card_def Let_def)
    then show ?thesis using that [of ?g'] False
      by (simp add: place_card_def hand_of_def update_conv')
  qed
  have run: "uno_play w cid uid args now = finish_play w cid uid g'"
    using assms(1,2,6,7,8,9) idx notwild dsp eff
    by (simp add: uno_play_def Let_def legal_iff play_card_def)
  have "remove1 ?c (hand_of g uid) \<noteq> [] \<longrightarrow>
          map_of (GAMES (fst (uno_play w cid uid args now))) cid = Some g'"
    using run hnd by (auto simp: finish_play_def Let_def split: option.splits)
  with run eff dir cur pls show ?thesis by blast
qed

theorem reverse_effect_witness:
  "map_of (GAMES duel_world) 7 = Some duel \<and> started duel
   \<and> 0 \<le> current duel \<and> current duel < int (length (players duel))
   \<and> players duel ! nat (current duel) = 10
   \<and> parse_args (map lower [''red'', ''reverse'']) = Inr ((''red'', ''reverse''), None)
   \<and> (''red'', ''reverse'') \<in> set (hand_of duel 10)
   \<and> pile duel \<noteq> [] \<and> legal duel (''red'', ''reverse'')
   \<and> length (players duel) = 2 \<and> direction duel = 1
   \<and> (\<exists>g'. map_of (GAMES (fst (uno_play duel_world 7 10 [''red'', ''reverse''] 1))) 7 = Some g'
          \<and> direction g' = - 1 \<and> current g' = current duel)"
proof -
  have h3: "0 \<le> current duel" and h4: "current duel < int (length (players duel))"
    and h5: "players duel ! nat (current duel) = 10"
    and two: "length (players duel) = 2" and dir: "direction duel = 1"
    by (simp_all add: duel_def)
  have h6: "parse_args (map lower [''red'', ''reverse'']) = Inr ((''red'', ''reverse''), None)"
    by (simp add: lower_def lower_char_def)
  have h7: "(''red'', ''reverse'') \<in> set (hand_of duel 10)"
    by (simp add: duel_facts)
  have h9: "legal duel (''red'', ''reverse'')"
    by (simp add: legal_def duel_def)
  have left: "remove1 (''red'', ''reverse'') (hand_of duel 10) \<noteq> []"
    by (simp add: duel_facts)
  from reverse_effect [OF duel_facts(1) duel_facts(2) h3 h4 h5 h6 h7 duel_facts(4) h9, of 1]
  show ?thesis using duel_facts h3 h4 h5 h6 h7 h9 two dir left by auto
qed

subsection \<open>Penalty draws on a short deck\<close>

lemma pop_many_enough:
  "k \<le> length d \<Longrightarrow>
     pop_many k d = (take (length d - k) d, Some (rev (drop (length d - k) d)))"
proof (induction k arbitrary: d)
  case 0
  then show ?case by simp
next
  case (Suc k)
  then have ne: "d \<noteq> []" by auto
  then obtain xs x where d: "d = xs @ [x]" by (metis rev_exhaust)
  have "k \<le> length xs" using Suc.prems d by simp
  from Suc.IH [OF this] show ?case using d by (simp add: Suc_diff_le)
qed

lemma pop_many_short: "length d < k \<Longrightarrow> pop_many k d = ([], None)"
proof (induction k arbitrary: d)
  case 0
  then show ?case by simp
next
  case (Suc k)
  show ?case
  proof (cases "d = []")
    case True
    then show ?thesis by simp
  next
    case False
    then have "length (butlast d) < k" using Suc.prems by (cases d rule: rev_cases) auto
    from Suc.IH [OF this] show ?thesis using False by simp
  qed
qed

lemma length_full_deck: "length full_deck = 108"
  by code_simp

lemma pop7:
  "7 \<le> length d \<Longrightarrow>
     pop_many 7 d = (take (length d - 7) d, Some (rev (drop (length d - 7) d)))"
  by (rule pop_many_enough)

lemma table_dealt:
  assumes "length (create_deck sh) = 108"
  shows "table sh = \<lparr>GAMES = [(7, dealt (create_deck sh))],
                     games_file = Some [(7, dealt (create_deck sh))], stats_file = []\<rparr>"
proof -
  have ne: "create_deck sh \<noteq> []" using assms by auto
  show ?thesis
    using assms ne
    by (simp add: table_def uno_start_def uno_join_def uno_begin_def new_game_def
      save_games_def put_game_def fresh_def pop7 Let_def py_index_def dealt_def
      split: sum.splits del: pop_many.simps)
qed

lemma length_rotated: "length (create_deck (rotate 10)) = 108"
  by (simp add: create_deck_def length_full_deck)

lemma rotated_top: "take 3 (create_deck (rotate 10)) = [(''red'', ''5''), (''red'', ''6''), (''red'', ''6'')]"
  by code_simp

lemma rotated_first:
  "rev (drop 101 (create_deck (rotate 10)))
     = [(''red'', ''5''), (''red'', ''4''), (''red'', ''4''), (''red'', ''3''), (''red'', ''3''),
        (''red'', ''2''), (''red'', ''2'')]"
  by code_simp

lemma rotated_second:
  "rev (drop 94 (take 101 (create_deck (rotate 10))))
     = [(''red'', ''1''), (''red'', ''1''), (''red'', ''0''), (''wild'', ''wild4''),
        (''wild'', ''wild4''), (''wild'', ''wild4''), (''wild'', ''wild4'')]"
  by code_simp

lemma penalty_short:
  assumes "players g \<noteq> []" and "length (deck g) < k"
  shows "penalty k g =
           (g\<lparr>current := (current g + direction g) mod int (length (players g)), deck := []\<rparr>,
            Some IndexError)"
  using assms by (simp add: penalty_def advance_turn_def py_index_mod pop_many_short)

lemma short_deck_play:
  assumes "map_of (GAMES w) cid = Some g" and "started g"
    and "py_index (players g) (current g) = Some uid"
    and "parse_args (map lower args) = Inr (c, ch)"
    and "snd c = ''draw2'' \<and> k = 2 \<or> snd c = ''wild4'' \<and> k = 4"
    and "c \<in> set (hand_of g uid)" and "pile g \<noteq> []" and "legal g c"
    and "length (deck g) < k"
  shows "uno_play w cid uid args now =
           (put_game w cid
              ((place_card g uid (hand_of g uid) c ch now)
                 \<lparr>current := (current g + direction g) mod int (length (players g)),
                  deck := []\<rparr>),
            Raised IndexError)"
proof -
  let ?g2 = "place_card g uid (hand_of g uid) c ch now"
  have plne: "players ?g2 \<noteq> []"
    using py_index_nonempty [OF assms(3)] by (simp add: place_card_def)
  have short: "length (deck ?g2) < k" using assms(9) by (simp add: place_card_def)
  have eff: "play_effect ?g2 c = penalty k ?g2"
    using assms(5) by (auto simp: play_effect_def)
  have dsp: "\<exists>s. disp c = Inr s"
    using assms(5) by (auto simp: disp_def isdigit_def SPECIAL_def)
  have bound: "\<not> (fst c = ''wild'' \<and> ch = None)"
    using parse_args_wild [OF assms(4)] by auto
  have "play_card w cid uid g (hand_of g uid) c ch now =
          (put_game w cid
              (?g2\<lparr>current := (current ?g2 + direction ?g2) mod int (length (players ?g2)),
                  deck := []\<rparr>),
            Raised IndexError)"
    using dsp bound eff penalty_short [OF plne short]
    by (auto simp: play_card_def Let_def)
  moreover have "uno_play w cid uid args now = play_card w cid uid g (hand_of g uid) c ch now"
    using assms(1,2,3,4,6,7,8) by (simp add: uno_play_def Let_def legal_iff)
  ultimately show ?thesis by (simp add: place_card_def)
qed

lemma hands_total_update:
  "map_of hs u = Some h \<Longrightarrow>
     sum_list (map (\<lambda>(u, h). length h) (AList.update u h' hs)) + length h
       = sum_list (map (\<lambda>(u, h). length h) hs) + length h'"
  by (induction hs) (auto split: if_splits)

lemma card_total_place:
  assumes "c \<in> set (hand_of g uid)"
  shows "card_total (place_card g uid (hand_of g uid) c ch now) = card_total g"
proof -
  obtain h where h: "map_of (hands g) uid = Some h" and c: "c \<in> set h"
    using assms by (cases "map_of (hands g) uid") (auto simp: hand_of_def)
  have "length (remove1 c h) + 1 = length h"
    using c by (simp add: length_remove1) (cases h; simp)
  with hands_total_update [OF h, of "remove1 c h"] show ?thesis
    using h by (simp add: card_total_def place_card_def hand_of_def)
qed

lemma short_deck_loss:
  assumes "c \<in> set (hand_of g uid)"
  shows "card_total ((place_card g uid (hand_of g uid) c ch now)\<lparr>current := i, deck := []\<rparr>)
           + length (deck g) = card_total g"
proof -
  have "card_total ((place_card g uid (hand_of g uid) c ch now)\<lparr>current := i, deck := []\<rparr>)
          + length (deck g) = card_total (place_card g uid (hand_of g uid) c ch now)"
    by (simp add: card_total_def place_card_def)
  with card_total_place [OF assms] show ?thesis by simp
qed

lemma card_total_dealt: "length D = 108 \<Longrightarrow> card_total (dealt D) = 108"
  by (simp add: card_total_def dealt_def)

lemma dealt_rotated:
  "players (dealt (create_deck (rotate 10))) = [1, 2, 3, 4, 5, 6, 7, 8, 9, 10, 11, 12, 13, 14, 15]"
  "started (dealt (create_deck (rotate 10)))"
  "current (dealt (create_deck (rotate 10))) = 0"
  "direction (dealt (create_deck (rotate 10))) = 1"
  "pile (dealt (create_deck (rotate 10))) = [(''red'', ''6'')]"
  "deck (dealt (create_deck (rotate 10))) = [(''red'', ''5''), (''red'', ''6'')]"
  "current_color (dealt (create_deck (rotate 10))) = Some ''red''"
  "hand_of (dealt (create_deck (rotate 10))) 1
     = [(''red'', ''5''), (''red'', ''4''), (''red'', ''4''), (''red'', ''3''), (''red'', ''3''),
        (''red'', ''2''), (''red'', ''2'')]"
  "hand_of (dealt (create_deck (rotate 10))) 2
     = [(''red'', ''1''), (''red'', ''1''), (''red'', ''0''), (''wild'', ''wild4''),
        (''wild'', ''wild4''), (''wild'', ''wild4''), (''wild'', ''wild4'')]"
  "length (hand_of (dealt (create_deck (rotate 10))) 3) = 7"
  using length_rotated
  by (simp_all add: dealt_def hand_of_def rotated_top rotated_first rotated_second)

lemma after_red5_facts:
  "players after_red5 = [1, 2, 3, 4, 5, 6, 7, 8, 9, 10, 11, 12, 13, 14, 15]"
  "started after_red5" "current after_red5 = 1" "direction after_red5 = 1"
  "pile after_red5 = [(''red'', ''6''), (''red'', ''5'')]"
  "deck after_red5 = [(''red'', ''5''), (''red'', ''6'')]"
  "current_color after_red5 = Some ''red''"
  "hand_of after_red5 2
     = [(''red'', ''1''), (''red'', ''1''), (''red'', ''0''), (''wild'', ''wild4''),
        (''wild'', ''wild4''), (''wild'', ''wild4''), (''wild'', ''wild4'')]"
  "length (hand_of after_red5 3) = 7"
  using dealt_rotated
  by (simp_all add: after_red5_def place_card_def hand_of_def update_conv')

lemma card_total_after_red5: "card_total after_red5 = 108"
proof -
  have "(''red'', ''5'') \<in> set (hand_of (dealt (create_deck (rotate 10))) 1)"
    by (simp add: dealt_rotated)
  from card_total_place [OF this, of None 1]
  have "card_total after_red5 = card_total (dealt (create_deck (rotate 10)))"
    by (simp add: after_red5_def card_total_def)
  then show ?thesis using card_total_dealt [OF length_rotated] by simp
qed

lemma short_deck_game:
  "short_deck_world = \<lparr>GAMES = [(7, after_red5)], games_file = Some [(7, after_red5)],
                         stats_file = []\<rparr>"
proof -
  let ?g = "dealt (create_deck (rotate 10))"
  let ?w = "\<lparr>GAMES = [(7, ?g)], games_file = Some [(7, ?g)], stats_file = []\<rparr>"
  have parsed: "parse_args (map lower [''red'', ''5'']) = Inr ((''red'', ''5''), None)"
    by (simp add: lower_def lower_char_def)
  have idx: "py_index (players ?g) (current ?g) = Some 1"
    by (simp add: dealt_rotated py_index_def)
  have held: "(''red'', ''5'') \<in> set (hand_of ?g 1)" by (simp add: dealt_rotated)
  have run: "uno_play ?w 7 1 [''red'', ''5''] 1
               = play_card ?w 7 1 ?g (hand_of ?g 1) (''red'', ''5'') None 1"
    using parsed idx held
    by (simp add: uno_play_def Let_def rejected_def dealt_rotated)
  have eff: "play_effect (place_card ?g 1 (hand_of ?g 1) (''red'', ''5'') None 1) (''red'', ''5'')
               = (after_red5, None)"
    by (simp add: play_effect_def advance_once_def advance_turn_def after_red5_def
          place_card_def dealt_rotated)
  have dsp: "disp (''red'', ''5'') = Inr ''red 5''"
    by (simp add: disp_def isdigit_def)
  have left: "hand_of after_red5 1 \<noteq> []"
    using dealt_rotated(8) by (simp add: after_red5_def hand_of_def place_card_def update_conv')
  have fin: "fst (finish_play ?w 7 1 after_red5) = save_games (put_game ?w 7 after_red5)"
    using left by (simp add: finish_play_def Let_def split: option.splits)
  have "fst (uno_play ?w 7 1 [''red'', ''5''] 1) = save_games (put_game ?w 7 after_red5)"
    using run eff dsp fin by (simp add: play_card_def Let_def)
  then show ?thesis
    by (simp add: short_deck_world_def table_dealt [OF length_rotated] save_games_def
          put_game_def)
qed

lemma short_deck_run:
  "uno_play short_deck_world 7 2 [''wild4'', ''blue''] 2
     = (put_game short_deck_world 7 after_wild4, Raised IndexError)"
proof -
  have g: "map_of (GAMES short_deck_world) 7 = Some after_red5"
    by (simp add: short_deck_game)
  have idx: "py_index (players after_red5) (current after_red5) = Some 2"
    by (simp add: after_red5_facts py_index_def)
  have parsed: "parse_args (map lower [''wild4'', ''blue''])
                  = Inr ((''wild'', ''wild4''), Some ''blue'')"
    by (simp add: lower_def lower_char_def COLORS_def)
  have kind: "snd (''wild'', ''wild4'') = ''draw2'' \<and> (4::nat) = 2
              \<or> snd (''wild'', ''wild4'') = ''wild4'' \<and> (4::nat) = 4"
    by simp
  have held: "(''wild'', ''wild4'') \<in> set (hand_of after_red5 2)"
    by (simp add: after_red5_facts)
  have pl: "pile after_red5 \<noteq> []" by (simp add: after_red5_facts)
  have lg: "legal after_red5 (''wild'', ''wild4'')" by (simp add: legal_def)
  have short: "length (deck after_red5) < 4" by (simp add: after_red5_facts)
  from short_deck_play [OF g after_red5_facts(2) idx parsed kind held pl lg short, of 2]
  show ?thesis by (simp add: after_wild4_def after_red5_facts)
qed

lemma last_full_deck: "last full_deck = (''wild'', ''wild4'')"
  by code_simp

lemma endgame_facts:
  "players endgame = [10, 20]" "started endgame" "current endgame = 0" "direction endgame = 1"
  "hand_of endgame 10 = [(''wild'', ''wild4'')]"
  "length (deck endgame) = 1" "length (pile endgame) = 99" "pile endgame \<noteq> []"
  "length (hand_of endgame 20) = 7"
  "map_of (GAMES endgame_world) 7 = Some endgame" "stats_file endgame_world = []"
  using length_full_deck
  by (auto simp: endgame_def endgame_world_def hand_of_def last_full_deck)

lemma endgame_run:
  "uno_play endgame_world 7 10 [''wild4'', ''red''] 1
     = (put_game endgame_world 7 endgame_after, Raised IndexError)"
proof -
  have idx: "py_index (players endgame) (current endgame) = Some 10"
    by (simp add: endgame_facts py_index_def)
  have parsed: "parse_args (map lower [''wild4'', ''red''])
                  = Inr ((''wild'', ''wild4''), Some ''red'')"
    by (simp add: lower_def lower_char_def COLORS_def)
  have kind: "snd (''wild'', ''wild4'') = ''draw2'' \<and> (4::nat) = 2
              \<or> snd (''wild'', ''wild4'') = ''wild4'' \<and> (4::nat) = 4"
    by simp
  have held: "(''wild'', ''wild4'') \<in> set (hand_of endgame 10)"
    by (simp add: endgame_facts)
  have lg: "legal endgame (''wild'', ''wild4'')" by (simp add: legal_def)
  have short: "length (deck endgame) < 4" by (simp add: endgame_facts)
  from short_deck_play [OF endgame_facts(10) endgame_facts(2) idx parsed kind held
      endgame_facts(8) lg short, of 1]
  show ?thesis by (simp add: endgame_after_def endgame_facts)
qed

text \<open>
  C5, at a failing input.  Fifteen players are dealt from a rotated deck; two cards are left
  in the deck.  The first player plays a red 5, the second a wild4: deck and pile together
  hold the four cards the next player should draw.  \<open>uno_play\<close> does not rebuild the deck from
  the pile as \<open>uno_draw\<close> does: the comprehension pops the two deck cards, raises IndexError
  and drops them.  The next player's hand is unchanged and the turn stays on that player.
\<close>

theorem penalty_without_reshuffle:
  "uno_play short_deck_world 7 2 [''wild4'', ''blue''] 2
     = (put_game short_deck_world 7 after_wild4, Raised IndexError)
   \<and> map_of (GAMES short_deck_world) 7 = Some after_red5
   \<and> legal after_red5 (''wild'', ''wild4'')
   \<and> length (deck after_red5) = 2 \<and> length (pile after_red5) = 2
   \<and> py_index (players after_red5) (current after_red5 + direction after_red5) = Some 3
   \<and> length (hand_of after_red5 3) = 7
   \<and> hand_of after_wild4 3 = hand_of after_red5 3
   \<and> deck after_wild4 = [] \<and> length (pile after_wild4) = 3
   \<and> py_index (players after_wild4) (current after_wild4) = Some 3"
proof -
  have same: "hand_of after_wild4 3 = hand_of after_red5 3"
    by (simp add: after_wild4_def hand_of_def place_card_def update_conv')
  have rest: "deck after_wild4 = []" "length (pile after_wild4) = 3"
    "py_index (players after_wild4) (current after_wild4) = Some 3"
    by (simp_all add: after_wild4_def place_card_def after_red5_facts py_index_def)
  have nxt: "py_index (players after_red5) (current after_red5 + direction after_red5) = Some 3"
    by (simp add: after_red5_facts py_index_def)
  have g: "map_of (GAMES short_deck_world) 7 = Some after_red5"
    by (simp add: short_deck_game)
  from short_deck_run g same rest nxt show ?thesis
    by (simp add: legal_def after_red5_facts)
qed

text \<open>
  C1, at a failing input.  The game reached by \<open>/uno_start\<close>, fifteen \<open>/uno_join\<close>,
  \<open>/uno_begin\<close> and one play holds 108 cards; after the wild4 of the second player it holds
  106: the two cards popped before the IndexError are in no hand, not in the deck and not in
  the pile.
\<close>

theorem cards_lost_at_short_deck:
  "map_of (GAMES short_deck_world) 7 = Some after_red5
   \<and> card_total after_red5 = 108
   \<and> snd (uno_play short_deck_world 7 2 [''wild4'', ''blue''] 2) = Raised IndexError
   \<and> map_of (GAMES (fst (uno_play short_deck_world 7 2 [''wild4'', ''blue''] 2))) 7
       = Some after_wild4
   \<and> card_total after_wild4 = 106"
proof -
  have held: "(''wild'', ''wild4'') \<in> set (hand_of after_red5 2)"
    by (simp add: after_red5_facts)
  from short_deck_loss [OF held, where ch = "Some ''blue''" and now = 2 and i = 2]
  have "card_total after_wild4 + 2 = 108"
    by (simp add: after_wild4_def after_red5_facts card_total_after_red5)
  then have "card_total after_wild4 = 106" by simp
  moreover have "map_of (GAMES short_deck_world) 7 = Some after_red5"
    by (simp add: short_deck_game)
  ultimately show ?thesis
    by (simp add: short_deck_run card_total_after_red5)
qed

text \<open>
  C8, at a failing input.  A player whose last card is a wild4 plays it while the deck holds
  one card.  The hand is emptied and the card is on the pile, but the penalty draw raises
  IndexError before the win check: no win is recorded, the session stays in \<open>GAMES\<close> and a
  later status still shows a running game.
\<close>

theorem last_card_without_win:
  "map_of (GAMES endgame_world) 7 = Some endgame
   \<and> hand_of endgame 10 = [(''wild'', ''wild4'')]
   \<and> uno_play endgame_world 7 10 [''wild4'', ''red''] 1
       = (put_game endgame_world 7 endgame_after, Raised IndexError)
   \<and> hand_of endgame_after 10 = []
   \<and> stats_file (put_game endgame_world 7 endgame_after) = stats_file endgame_world
   \<and> map_of (GAMES (put_game endgame_world 7 endgame_after)) 7 = Some endgame_after
   \<and> snd (uno_status (put_game endgame_world 7 endgame_after) 7)
       = StatusRunning 2 20 (Some ''red'') (Some (''wild'', ''wild4''))"
proof -
  have emptied: "hand_of endgame_after 10 = []"
    using endgame_facts(5) by (simp add: endgame_after_def hand_of_def place_card_def update_conv')
  have st: "snd (uno_status (put_game endgame_world 7 endgame_after) 7)
       = StatusRunning 2 20 (Some ''red'') (Some (''wild'', ''wild4''))"
    by (simp add: uno_status_def endgame_after_def place_card_def endgame_facts py_index_def)
  have kept: "stats_file (put_game endgame_world 7 endgame_after) = stats_file endgame_world"
    by (simp add: put_game_def)
  from endgame_run emptied st kept show ?thesis
    by (simp add: endgame_facts)
qed

end
